theory Spec2Isabelle
  imports Complex_Main
begin

section \<open>Data model (tracker-types.ts)\<close>

text \<open>
  A valid JavaScript \<open>Date\<close> is modelled by its time value, an integer number of
  milliseconds since the epoch (UTC); \<open>Date | null\<close> is \<open>int option\<close>. The methods
  of \<open>Date\<close> that read or set local calendar fields take the time zone of the host as
  a parameter.

  The TypeScript type \<open>number\<close> is a type parameter of the records. The time accounting
  is modelled at \<open>int\<close> (finite whole minutes and milliseconds); the storage
  normalisation, which has to tell \<open>NaN\<close> and the infinities apart, is modelled at
  \<open>jsnum\<close> below. Every entry the program works with comes out of the normalisation,
  whose minute counts are never \<open>NaN\<close>, never negative and never fractional.
\<close>

datatype LogStatus = Completed | Active | OnBreak

datatype LogSource = Timer | Manual

datatype jsnum = NaN | NegInf | Fin rat | PosInf

record GeoTag =
  latitude :: jsnum
  longitude :: jsnum
  accuracy :: "jsnum option"
  capturedAt :: string
  label :: "string option"

record 'n BreakRecord =
  breakStart :: string
  breakEnd :: string
  durationMinutes :: 'n

record 'n TimeLog =
  logId :: string
  userId :: string
  projectId :: "string option"
  projectName :: string
  taskName :: string
  startTime :: int
  endTime :: "int option"
  totalMinutes :: 'n
  breakMinutes :: 'n
  breaks :: "'n BreakRecord list"
  noteText :: string
  status :: LogStatus
  location :: "GeoTag option"
  breakStartedAt :: "int option"
  source :: LogSource
  createdAt :: "int option"
  updatedAt :: "int option"

record ManualLogInput =
  m_userId :: string
  m_projectId :: "string option"
  m_projectName :: string
  m_taskName :: string
  m_note :: string
  m_location :: "GeoTag option"
  m_startTime :: int
  m_endTime :: int

section \<open>Instants and the calendar\<close>

text \<open>
  The calendar functions of \<open>Date\<close> follow the definitions of the ECMAScript language
  specification (Day, TimeWithinDay, DaysInYear, DayFromYear, YearFromTime, MonthFromTime,
  DateFromTime, WeekDay, MakeDay, MakeTime, MakeDate), on day numbers. YearFromTime,
  "the largest year whose first day is not after the day", is computed by stepping from
  1970.
\<close>

definition msPerDay :: int where
  "msPerDay = 86400000"

definition Day :: "int \<Rightarrow> int" where
  "Day t = t div msPerDay"

definition TimeWithinDay :: "int \<Rightarrow> int" where
  "TimeWithinDay t = t mod msPerDay"

definition DaysInYear :: "int \<Rightarrow> int" where
  "DaysInYear y =
     (if y mod 4 \<noteq> 0 then 365
      else if y mod 100 \<noteq> 0 then 366
      else if y mod 400 \<noteq> 0 then 365
      else 366)"

definition DayFromYear :: "int \<Rightarrow> int" where
  "DayFromYear y =
     365 * (y - 1970) + (y - 1969) div 4 - (y - 1901) div 100 + (y - 1601) div 400"

lemma div_step:
  fixes a n :: int
  assumes n: "0 < n"
  shows "(a + 1) div n = a div n + (if (a + 1) mod n = 0 then 1 else 0)"
proof (cases "a mod n + 1 < n")
  case True
  have eq: "a + 1 = n * (a div n) + (a mod n + 1)" by simp
  have r0: "0 \<le> a mod n + 1" using n by (simp add: add_nonneg_nonneg)
  have d: "(a + 1) div n = a div n"
    by (rule int_div_pos_eq [OF eq r0 True])
  have m: "(a + 1) mod n = a mod n + 1"
    by (rule int_mod_pos_eq [OF eq r0 True])
  have "a mod n + 1 \<noteq> 0" using n pos_mod_sign [of n a] by linarith
  with d m show ?thesis by simp
next
  case False
  have "a mod n < n" using n by simp
  with False have r: "a mod n + 1 = n" by linarith
  have eq: "a + 1 = n * (a div n + 1) + 0"
    using r by (simp add: algebra_simps) (metis add.commute add.left_commute mult_div_mod_eq)
  have d: "(a + 1) div n = a div n + 1"
    by (rule int_div_pos_eq [OF eq]) (use n in simp_all)
  have m: "(a + 1) mod n = 0"
    by (rule int_mod_pos_eq [OF eq]) (use n in simp_all)
  with d show ?thesis by simp
qed

lemma DayFromYear_Suc: "DayFromYear (y + 1) = DayFromYear y + DaysInYear y"
proof -
  have m4: "(y - 1968) mod 4 = y mod 4"
    using mod_mult_self2 [of y 4 "-492"] by simp
  have m100: "(y - 1900) mod 100 = y mod 100"
    using mod_mult_self2 [of y 100 "-19"] by simp
  have m400: "(y - 1600) mod 400 = y mod 400"
    using mod_mult_self2 [of y 400 "-4"] by simp
  have a: "(y + 1 - 1969) div 4 = (y - 1969) div 4 + (if y mod 4 = 0 then 1 else 0)"
    using div_step [of 4 "y - 1969"] m4 by (simp add: algebra_simps)
  have b: "(y + 1 - 1901) div 100 = (y - 1901) div 100 + (if y mod 100 = 0 then 1 else 0)"
    using div_step [of 100 "y - 1901"] m100 by (simp add: algebra_simps)
  have c: "(y + 1 - 1601) div 400 = (y - 1601) div 400 + (if y mod 400 = 0 then 1 else 0)"
    using div_step [of 400 "y - 1601"] m400 by (simp add: algebra_simps)
  have d: "y mod 4 = 0" if "y mod 100 = 0"
  proof -
    from that have "100 dvd y" by (simp add: dvd_eq_mod_eq_0)
    moreover have "(4::int) dvd 100" by simp
    ultimately have "4 dvd y" by (rule dvd_trans [rotated])
    then show ?thesis by (simp add: dvd_eq_mod_eq_0)
  qed
  have e: "y mod 100 = 0" if "y mod 400 = 0"
  proof -
    from that have "400 dvd y" by (simp add: dvd_eq_mod_eq_0)
    moreover have "(100::int) dvd 400" by simp
    ultimately have "100 dvd y" by (rule dvd_trans [rotated])
    then show ?thesis by (simp add: dvd_eq_mod_eq_0)
  qed
  have "DayFromYear (y + 1) =
        365 * (y - 1970) + (y - 1969) div 4 - (y - 1901) div 100 + (y - 1601) div 400 + 365
        + (if y mod 4 = 0 then 1 else 0) - (if y mod 100 = 0 then 1 else 0)
        + (if y mod 400 = 0 then 1 else 0)"
    unfolding DayFromYear_def a b c by simp
  also have "\<dots> = DayFromYear y + DaysInYear y"
  proof (cases "y mod 4 = 0")
    case False
    with d e show ?thesis by (auto simp add: DayFromYear_def DaysInYear_def)
  next
    case True
    show ?thesis
    proof (cases "y mod 100 = 0")
      case False
      with True e show ?thesis by (auto simp add: DayFromYear_def DaysInYear_def)
    next
      case h: True
      with True show ?thesis by (simp add: DayFromYear_def DaysInYear_def)
    qed
  qed
  finally show ?thesis .
qed

lemma DaysInYear_ge: "365 \<le> DaysInYear y"
  by (simp add: DaysInYear_def)

function yearUp :: "int \<Rightarrow> int \<Rightarrow> int" where
  "yearUp y d = (if DayFromYear (y + 1) \<le> d then yearUp (y + 1) d else y)"
  by pat_completeness auto
termination
proof (relation "measure (\<lambda>(y, d). nat (d - DayFromYear y))")
  show "wf (measure (\<lambda>(y, d). nat (d - DayFromYear y)))" by simp
next
  fix y d :: int
  assume "DayFromYear (y + 1) \<le> d"
  then show "((y + 1, d), (y, d)) \<in> measure (\<lambda>(y, d). nat (d - DayFromYear y))"
    using DaysInYear_ge [of y] by (simp add: DayFromYear_Suc)
qed

function yearDown :: "int \<Rightarrow> int \<Rightarrow> int" where
  "yearDown y d = (if d < DayFromYear y then yearDown (y - 1) d else y)"
  by pat_completeness auto
termination
proof (relation "measure (\<lambda>(y, d). nat (DayFromYear y - d))")
  show "wf (measure (\<lambda>(y, d). nat (DayFromYear y - d)))" by simp
next
  fix y d :: int
  assume "d < DayFromYear y"
  then show "((y - 1, d), (y, d)) \<in> measure (\<lambda>(y, d). nat (DayFromYear y - d))"
    using DaysInYear_ge [of "y - 1"] DayFromYear_Suc [of "y - 1"] by simp
qed

definition YearFromDay :: "int \<Rightarrow> int" where
  "YearFromDay d = (if 0 \<le> d then yearUp 1970 d else yearDown 1970 d)"

definition leapDays :: "int \<Rightarrow> int" where
  "leapDays y = (if DaysInYear y = 366 then 1 else 0)"

definition InLeapYear :: "int \<Rightarrow> int" where
  "InLeapYear d = leapDays (YearFromDay d)"

definition DayWithinYear :: "int \<Rightarrow> int" where
  "DayWithinYear d = d - DayFromYear (YearFromDay d)"

definition monthStart :: "int \<Rightarrow> int \<Rightarrow> int" where
  "monthStart L m =
     (if m = 0 then 0 else if m = 1 then 31 else if m = 2 then 59 + L
      else if m = 3 then 90 + L else if m = 4 then 120 + L else if m = 5 then 151 + L
      else if m = 6 then 181 + L else if m = 7 then 212 + L else if m = 8 then 243 + L
      else if m = 9 then 273 + L else if m = 10 then 304 + L else if m = 11 then 334 + L
      else 365 + L)"

definition monthOfDay :: "int \<Rightarrow> int \<Rightarrow> int" where
  "monthOfDay L w =
     (if w < 31 then 0 else if w < 59 + L then 1 else if w < 90 + L then 2
      else if w < 120 + L then 3 else if w < 151 + L then 4 else if w < 181 + L then 5
      else if w < 212 + L then 6 else if w < 243 + L then 7 else if w < 273 + L then 8
      else if w < 304 + L then 9 else if w < 334 + L then 10 else 11)"

definition MonthFromDay :: "int \<Rightarrow> int" where
  "MonthFromDay d = monthOfDay (InLeapYear d) (DayWithinYear d)"

definition DateFromDay :: "int \<Rightarrow> int" where
  "DateFromDay d = DayWithinYear d - monthStart (InLeapYear d) (MonthFromDay d) + 1"

definition WeekDay :: "int \<Rightarrow> int" where
  "WeekDay d = (d + 4) mod 7"

definition MakeDay :: "int \<Rightarrow> int \<Rightarrow> int \<Rightarrow> int" where
  "MakeDay year month date =
     (let ym = year + month div 12; mn = month mod 12
      in DayFromYear ym + monthStart (leapDays ym) mn + date - 1)"

definition MakeTime :: "int \<Rightarrow> int \<Rightarrow> int \<Rightarrow> int \<Rightarrow> int" where
  "MakeTime h m s ms = h * 3600000 + m * 60000 + s * 1000 + ms"

definition MakeDate :: "int \<Rightarrow> int \<Rightarrow> int" where
  "MakeDate day time = day * msPerDay + time"

definition daysInMonth :: "int \<Rightarrow> int \<Rightarrow> int" where
  "daysInMonth y m = monthStart (leapDays y) (m + 1) - monthStart (leapDays y) m"

subsection \<open>Time zones\<close>

text \<open>
  A time zone is its offset from UTC (in milliseconds) before its first transition and
  the list of its transitions in ascending order: the UTC instant of each and the offset
  from then on. \<open>LocalTime\<close> and \<open>UTC\<close> are the abstract operations of the language
  specification. A local time that a transition skips or repeats is read with the offset
  before the transition, so a skipped local time comes out later by the gap.
\<close>

record zone =
  baseOffset :: int
  transitions :: "(int \<times> int) list"

fun offsetAt :: "int \<Rightarrow> (int \<times> int) list \<Rightarrow> int \<Rightarrow> int" where
  "offsetAt off [] t = off"
| "offsetAt off ((start, off') # later) t =
     (if t < start then off else offsetAt off' later t)"

fun offsetOfLocal :: "int \<Rightarrow> (int \<times> int) list \<Rightarrow> int \<Rightarrow> int" where
  "offsetOfLocal off [] lt = off"
| "offsetOfLocal off ((start, off') # later) lt =
     (if lt - off < start then off
      else if lt - off' < start then off
      else offsetOfLocal off' later lt)"

definition LocalTime :: "zone \<Rightarrow> int \<Rightarrow> int" where
  "LocalTime z t = t + offsetAt (baseOffset z) (transitions z) t"

definition UTC :: "zone \<Rightarrow> int \<Rightarrow> int" where
  "UTC z lt = lt - offsetOfLocal (baseOffset z) (transitions z) lt"

text \<open>
  A local time exists in a zone when no transition skips it: read as an instant and
  shown again as a local time, it is unchanged.
\<close>

definition localTimeExists :: "zone \<Rightarrow> int \<Rightarrow> bool" where
  "localTimeExists z lt \<longleftrightarrow> LocalTime z (UTC z lt) = lt"

subsection \<open>The Date methods the code calls\<close>

definition getFullYear :: "zone \<Rightarrow> int \<Rightarrow> int" where
  "getFullYear z t = YearFromDay (Day (LocalTime z t))"

definition getMonth :: "zone \<Rightarrow> int \<Rightarrow> int" where
  "getMonth z t = MonthFromDay (Day (LocalTime z t))"

definition getDate :: "zone \<Rightarrow> int \<Rightarrow> int" where
  "getDate z t = DateFromDay (Day (LocalTime z t))"

definition getDay :: "zone \<Rightarrow> int \<Rightarrow> int" where
  "getDay z t = WeekDay (Day (LocalTime z t))"



text \<open>
  The constructor \<open>new Date(year, monthIndex, day, 0, 0, 0, 0)\<close> reads a year from 0 to
  99 as a year of the twentieth century.
\<close>

definition dateYear :: "int \<Rightarrow> int" where
  "dateYear year = (if 0 \<le> year \<and> year \<le> 99 then 1900 + year else year)"

definition newDate :: "zone \<Rightarrow> int \<Rightarrow> int \<Rightarrow> int \<Rightarrow> int" where
  "newDate z year monthIndex day =
     UTC z (MakeDate (MakeDay (dateYear year) monthIndex day) (MakeTime 0 0 0 0))"

text \<open>The fields of an instant in UTC, which \<open>toISOString\<close> prints.\<close>

definition getUTCFullYear :: "int \<Rightarrow> int" where
  "getUTCFullYear t = YearFromDay (Day t)"

definition getUTCMonth :: "int \<Rightarrow> int" where
  "getUTCMonth t = MonthFromDay (Day t)"

definition getUTCDate :: "int \<Rightarrow> int" where
  "getUTCDate t = DateFromDay (Day t)"

definition getUTCHours :: "int \<Rightarrow> int" where
  "getUTCHours t = TimeWithinDay t div 3600000"

definition getUTCMinutes :: "int \<Rightarrow> int" where
  "getUTCMinutes t = TimeWithinDay t div 60000 mod 60"

definition getUTCSeconds :: "int \<Rightarrow> int" where
  "getUTCSeconds t = TimeWithinDay t div 1000 mod 60"

definition getUTCMilliseconds :: "int \<Rightarrow> int" where
  "getUTCMilliseconds t = TimeWithinDay t mod 1000"

subsection \<open>Numbers and dates as text\<close>

text \<open>
  \<open>showInt\<close> is the decimal text of a whole number (template literals and
  \<open>toString\<close>), \<open>padStart\<close> is \<open>String.prototype.padStart\<close> with a one-character
  filler, and \<open>toISOString\<close> is the ISO text of an instant, in UTC.
\<close>

definition digitChar :: "nat \<Rightarrow> char" where
  "digitChar d = ''0123456789'' ! d"

function showNat :: "nat \<Rightarrow> string" where
  "showNat n = (if n < 10 then [digitChar n] else showNat (n div 10) @ [digitChar (n mod 10)])"
  by pat_completeness auto
termination
  by (relation "measure id") auto

declare showNat.simps [simp del]

definition showInt :: "int \<Rightarrow> string" where
  "showInt i = (if i < 0 then CHR ''-'' # showNat (nat (- i)) else showNat (nat i))"

definition padStart :: "nat \<Rightarrow> char \<Rightarrow> string \<Rightarrow> string" where
  "padStart n c s = replicate (n - length s) c @ s"

text \<open>\<open>readNat\<close> is \<open>Number.parseInt(text, 10)\<close> on a text of decimal digits.\<close>

definition digitVal :: "char \<Rightarrow> nat" where
  "digitVal c = of_char c - 48"

definition readNat :: "string \<Rightarrow> nat" where
  "readNat s = foldl (\<lambda>a c. 10 * a + digitVal c) 0 s"

definition toISOString :: "int \<Rightarrow> string" where
  "toISOString t =
     (let y = getUTCFullYear t;
          year = (if 0 \<le> y \<and> y \<le> 9999 then padStart 4 (CHR ''0'') (showInt y)
                  else (if y < 0 then ''-'' else ''+'') @ padStart 6 (CHR ''0'') (showNat (nat \<bar>y\<bar>)))
      in year @ ''-'' @ padStart 2 (CHR ''0'') (showInt (getUTCMonth t + 1))
         @ ''-'' @ padStart 2 (CHR ''0'') (showInt (getUTCDate t))
         @ ''T'' @ padStart 2 (CHR ''0'') (showInt (getUTCHours t))
         @ '':'' @ padStart 2 (CHR ''0'') (showInt (getUTCMinutes t))
         @ '':'' @ padStart 2 (CHR ''0'') (showInt (getUTCSeconds t))
         @ ''.'' @ padStart 3 (CHR ''0'') (showInt (getUTCMilliseconds t)) @ ''Z'')"

section \<open>Duration calculator and reports (tracker-utils.ts)\<close>


definition calculateWorkedMilliseconds :: "int TimeLog \<Rightarrow> int \<Rightarrow> int" where
  "calculateWorkedMilliseconds lg now =
     (let end = (case endTime lg of Some e \<Rightarrow> e | None \<Rightarrow> now);
          durationMs = max 0 (end - startTime lg);
          storedBreakMs = max 0 (breakMinutes lg) * 60000;
          runningBreakMs =
            (if status lg = OnBreak
             then (case breakStartedAt lg of Some b \<Rightarrow> max 0 (now - b) | None \<Rightarrow> 0)
             else 0)
      in max 0 (durationMs - storedBreakMs - runningBreakMs))"

definition calculateWorkedMinutes :: "int TimeLog \<Rightarrow> int \<Rightarrow> int" where
  "calculateWorkedMinutes lg now = calculateWorkedMilliseconds lg now div 60000"

definition getLogMinutes :: "int TimeLog \<Rightarrow> int \<Rightarrow> int" where
  "getLogMinutes lg now =
     (case endTime lg of
        Some e \<Rightarrow> max (totalMinutes lg) (calculateWorkedMinutes lg now)
      | None \<Rightarrow> calculateWorkedMinutes lg now)"

definition sumLogMinutes :: "int TimeLog list \<Rightarrow> int \<Rightarrow> int" where
  "sumLogMinutes logs now = foldl (\<lambda>total lg. total + getLogMinutes lg now) 0 logs"




section \<open>Storage normalisation (tracker-data.ts)\<close>

text \<open>
  A raw document is a list of fields holding raw values. A JavaScript number is a
  \<open>jsnum\<close>: \<open>NaN\<close>, an infinity, or a finite value; \<open>Math.floor\<close> and
  \<open>Math.max\<close> are exact on doubles, so a finite value is modelled by a rational.
  \<open>DateV\<close> is a \<open>Date\<close> (\<open>None\<close> when invalid), \<open>TimestampV\<close> a Firestore
  \<open>Timestamp\<close>, \<open>TimestampLike\<close> any other object with a \<open>toDate\<close> method.
  \<open>parse\<close> stands for \<open>new Date(text)\<close> on a string, \<open>dateOfNumber\<close> is
  \<open>new Date(number)\<close>, and \<open>now\<close> is the instant \<open>new Date()\<close> reads.
\<close>

datatype raw =
    Undefined
  | Null
  | Bool bool
  | Num jsnum
  | Str string
  | DateV "int option"
  | TimestampV int
  | TimestampLike "int option"
  | Arr "raw list"
  | Obj "(string \<times> raw) list"

definition docField :: "(string \<times> raw) list \<Rightarrow> string \<Rightarrow> raw" where
  "docField data k = (case map_of data k of Some v \<Rightarrow> v | None \<Rightarrow> Undefined)"

definition getProp :: "raw \<Rightarrow> string \<Rightarrow> raw" where
  "getProp v k = (case v of Obj kvs \<Rightarrow> docField kvs k | _ \<Rightarrow> Undefined)"

definition isObject :: "raw \<Rightarrow> bool" where
  "isObject v =
     (case v of Obj _ \<Rightarrow> True | Arr _ \<Rightarrow> True | DateV _ \<Rightarrow> True | TimestampV _ \<Rightarrow> True
      | TimestampLike _ \<Rightarrow> True | _ \<Rightarrow> False)"

definition jsFloor :: "jsnum \<Rightarrow> jsnum" where
  "jsFloor x = (case x of Fin q \<Rightarrow> Fin (of_int \<lfloor>q\<rfloor>) | _ \<Rightarrow> x)"

fun jsMax :: "jsnum \<Rightarrow> jsnum \<Rightarrow> jsnum" where
  "jsMax NaN y = NaN"
| "jsMax x NaN = NaN"
| "jsMax PosInf y = PosInf"
| "jsMax x PosInf = PosInf"
| "jsMax NegInf y = y"
| "jsMax x NegInf = x"
| "jsMax (Fin a) (Fin b) = Fin (max a b)"

definition dateOfNumber :: "jsnum \<Rightarrow> int option" where
  "dateOfNumber n =
     (case n of
        Fin q \<Rightarrow> if \<bar>q\<bar> \<le> 8640000000000000
                 then Some (if 0 \<le> q then \<lfloor>q\<rfloor> else \<lceil>q\<rceil>) else None
      | _ \<Rightarrow> None)"

definition readString :: "raw \<Rightarrow> string \<Rightarrow> string" where
  "readString v fallback = (case v of Str s \<Rightarrow> s | _ \<Rightarrow> fallback)"

definition readNumber :: "raw \<Rightarrow> jsnum \<Rightarrow> jsnum" where
  "readNumber v fallback =
     (case v of Num n \<Rightarrow> if n = NaN then fallback else n | _ \<Rightarrow> fallback)"

definition readDate :: "(string \<Rightarrow> int option) \<Rightarrow> raw \<Rightarrow> int option" where
  "readDate parse v =
     (case v of
        DateV d \<Rightarrow> d
      | TimestampV t \<Rightarrow> Some t
      | Str s \<Rightarrow> parse s
      | Num n \<Rightarrow> dateOfNumber n
      | TimestampLike d \<Rightarrow> d
      | _ \<Rightarrow> None)"

definition normalizeStatus :: "raw \<Rightarrow> LogStatus" where
  "normalizeStatus v =
     (if v = Str ''active'' then Active
      else if v = Str ''on-break'' then OnBreak
      else if v = Str ''completed'' then Completed
      else Completed)"

definition normalizeBreak :: "raw \<Rightarrow> jsnum BreakRecord option" where
  "normalizeBreak entry =
     (if \<not> isObject entry then None
      else (case (getProp entry ''startTime'', getProp entry ''endTime'') of
              (Str s, Str e) \<Rightarrow>
                Some \<lparr>breakStart = s, breakEnd = e,
                      durationMinutes =
                        jsMax (Fin 0) (jsFloor (readNumber (getProp entry ''durationMinutes'') (Fin 0)))\<rparr>
            | _ \<Rightarrow> None))"

definition normalizeBreaks :: "raw \<Rightarrow> jsnum BreakRecord list" where
  "normalizeBreaks v =
     (case v of
        Arr xs \<Rightarrow> map the (filter (\<lambda>entry. entry \<noteq> None) (map normalizeBreak xs))
      | _ \<Rightarrow> [])"

definition normalizeLocation :: "int \<Rightarrow> raw \<Rightarrow> GeoTag option" where
  "normalizeLocation now v =
     (if \<not> isObject v then None
      else (case (getProp v ''latitude'', getProp v ''longitude'') of
              (Num la, Num lo) \<Rightarrow>
                Some \<lparr>latitude = la, longitude = lo,
                      accuracy = (case getProp v ''accuracy'' of
                                    Num a \<Rightarrow> if a = NaN then None else Some a | _ \<Rightarrow> None),
                      capturedAt = (case getProp v ''capturedAt'' of
                                      Str s \<Rightarrow> s | _ \<Rightarrow> toISOString now),
                      label = (case getProp v ''label'' of Str s \<Rightarrow> Some s | _ \<Rightarrow> None)\<rparr>
            | _ \<Rightarrow> None))"

definition normalizeTimeLog ::
  "(string \<Rightarrow> int option) \<Rightarrow> int \<Rightarrow> string \<Rightarrow> (string \<times> raw) list \<Rightarrow> jsnum TimeLog" where
  "normalizeTimeLog parse now i data =
     (let startTime' =
            (case readDate parse (docField data ''startTime'') of
               Some t \<Rightarrow> t
             | None \<Rightarrow> (case readDate parse (docField data ''createdAt'') of
                          Some t \<Rightarrow> t | None \<Rightarrow> now));
          endTime' = readDate parse (docField data ''endTime'')
      in \<lparr>logId = i,
          userId = readString (docField data ''userId'') [],
          projectId = (case docField data ''projectId'' of Str s \<Rightarrow> Some s | _ \<Rightarrow> None),
          projectName = readString (docField data ''projectName'') ''General'',
          taskName = readString (docField data ''taskName'') [],
          startTime = startTime',
          endTime = endTime',
          totalMinutes = jsMax (Fin 0) (jsFloor (readNumber (docField data ''totalMinutes'') (Fin 0))),
          breakMinutes = jsMax (Fin 0) (jsFloor (readNumber (docField data ''breakMinutes'') (Fin 0))),
          breaks = normalizeBreaks (docField data ''breaks''),
          noteText = readString (docField data ''note'') [],
          status = normalizeStatus (docField data ''status''),
          location = normalizeLocation now (docField data ''location''),
          breakStartedAt = readDate parse (docField data ''breakStartedAt''),
          source = (if docField data ''source'' = Str ''manual'' then Manual else Timer),
          createdAt = readDate parse (docField data ''createdAt''),
          updatedAt = readDate parse (docField data ''updatedAt'')\<rparr>)"

definition isWholeNonNeg :: "jsnum \<Rightarrow> bool" where
  "isWholeNonNeg x = (case x of Fin q \<Rightarrow> 0 \<le> q \<and> q = of_int \<lfloor>q\<rfloor> | _ \<Rightarrow> False)"

section \<open>Entry lifecycle (tracker-data.ts)\<close>

text \<open>
  The document store is a map from document ids to entries, with the flag of
  \<open>requireDb\<close> (whether Firebase is configured) and the server's clock, which
  \<open>serverTimestamp()\<close> reads. \<open>updateDoc\<close> fails on a document that does not exist;
  \<open>addDoc\<close> stores the new document under the id the store chooses for it.
  A string is a list of 8-bit characters; \<open>trim\<close> strips the white space and line
  terminators of that range (tab, line feed, vertical tab, form feed, carriage return,
  space, no-break space) from both ends.
\<close>

datatype error = Error string

record backend =
  configured :: bool
  serverTime :: int
  timeLogs :: "string \<rightharpoonup> int TimeLog"

definition requireDb :: "backend \<Rightarrow> error + backend" where
  "requireDb b =
     (if \<not> configured b
      then Inl (Error ''Firebase is not configured. Add NEXT_PUBLIC_FIREBASE_* values first.'')
      else Inr b)"

definition updateDoc :: "backend \<Rightarrow> string \<Rightarrow> (int TimeLog \<Rightarrow> int TimeLog) \<Rightarrow> error + backend" where
  "updateDoc b i f =
     (case timeLogs b i of
        None \<Rightarrow> Inl (Error ''No document to update'')
      | Some d \<Rightarrow> Inr (b\<lparr>timeLogs := (timeLogs b)(i \<mapsto> f d)\<rparr>))"

definition addDoc :: "backend \<Rightarrow> string \<Rightarrow> int TimeLog \<Rightarrow> error + backend" where
  "addDoc b newId d = Inr (b\<lparr>timeLogs := (timeLogs b)(newId \<mapsto> d\<lparr>logId := newId\<rparr>)\<rparr>)"

definition isWhiteSpace :: "char \<Rightarrow> bool" where
  "isWhiteSpace c =
     (c \<in> set [CHR '' '', CHR 0x09, CHR 0x0A, CHR 0x0B, CHR 0x0C, CHR 0x0D, CHR 0xA0])"

definition trim :: "string \<Rightarrow> string" where
  "trim s = rev (dropWhile isWhiteSpace (rev (dropWhile isWhiteSpace s)))"

definition addManualLog :: "backend \<Rightarrow> string \<Rightarrow> ManualLogInput \<Rightarrow> error + backend" where
  "addManualLog b newId input =
     (case requireDb b of
        Inl e \<Rightarrow> Inl e
      | Inr database \<Rightarrow>
          (let durationMinutes = max 0 ((m_endTime input - m_startTime input) div 60000)
           in addDoc database newId
                \<lparr>logId = newId,
                 userId = m_userId input,
                 projectId = m_projectId input,
                 projectName = m_projectName input,
                 taskName = trim (m_taskName input),
                 startTime = m_startTime input,
                 endTime = Some (m_endTime input),
                 totalMinutes = durationMinutes,
                 breakMinutes = 0,
                 breaks = [],
                 noteText = trim (m_note input),
                 status = Completed,
                 location = m_location input,
                 breakStartedAt = None,
                 source = Manual,
                 createdAt = Some (serverTime database),
                 updatedAt = Some (serverTime database)\<rparr>))"

definition startBreak :: "backend \<Rightarrow> string \<Rightarrow> int \<Rightarrow> error + backend" where
  "startBreak b i breakStartedAt' =
     (case requireDb b of
        Inl e \<Rightarrow> Inl e
      | Inr database \<Rightarrow>
          updateDoc database i
            (\<lambda>d. d\<lparr>status := OnBreak,
                   breakStartedAt := Some breakStartedAt',
                   updatedAt := Some (serverTime database)\<rparr>))"

definition endBreak :: "backend \<Rightarrow> int TimeLog \<Rightarrow> int \<Rightarrow> error + backend" where
  "endBreak b lg breakEndedAt =
     (case breakStartedAt lg of
        None \<Rightarrow> Inl (Error ''Break start time is missing.'')
      | Some started \<Rightarrow>
          (case requireDb b of
             Inl e \<Rightarrow> Inl e
           | Inr database \<Rightarrow>
               (let breakDurationMinutes = max 0 ((breakEndedAt - started) div 60000);
                    nextBreakMinutes = breakMinutes lg + breakDurationMinutes;
                    nextBreaks = breaks lg @
                      [\<lparr>breakStart = toISOString started,
                        breakEnd = toISOString breakEndedAt,
                        durationMinutes = breakDurationMinutes\<rparr>]
                in updateDoc database (logId lg)
                     (\<lambda>d. d\<lparr>status := Active,
                            breakStartedAt := None,
                            breakMinutes := nextBreakMinutes,
                            breaks := nextBreaks,
                            updatedAt := Some (serverTime database)\<rparr>))))"

definition clockOut :: "backend \<Rightarrow> int TimeLog \<Rightarrow> int \<Rightarrow> error + backend" where
  "clockOut b lg clockOutAt =
     (case requireDb b of
        Inl e \<Rightarrow> Inl e
      | Inr database \<Rightarrow>
          (let (nextBreakMinutes, nextBreaks) =
                 (case breakStartedAt lg of
                    Some started \<Rightarrow>
                      if status lg = OnBreak
                      then (let inProgressBreakMinutes = max 0 ((clockOutAt - started) div 60000)
                            in (max 0 (breakMinutes lg) + inProgressBreakMinutes,
                                breaks lg @
                                  [\<lparr>breakStart = toISOString started,
                                    breakEnd = toISOString clockOutAt,
                                    durationMinutes = inProgressBreakMinutes\<rparr>]))
                      else (max 0 (breakMinutes lg), breaks lg)
                  | None \<Rightarrow> (max 0 (breakMinutes lg), breaks lg));
               grossMinutes = max 0 ((clockOutAt - startTime lg) div 60000);
               totalMinutes' = max 0 (grossMinutes - nextBreakMinutes)
           in updateDoc database (logId lg)
                (\<lambda>d. d\<lparr>endTime := Some clockOutAt,
                       totalMinutes := totalMinutes',
                       breakMinutes := nextBreakMinutes,
                       breaks := nextBreaks,
                       breakStartedAt := None,
                       status := Completed,
                       updatedAt := Some (serverTime database)\<rparr>)))"

section \<open>Dashboard handlers\<close>

text \<open>
  \<open>handleManualSubmit\<close> is the submit handler of the manual-log form. Its result is the
  handler's error message (\<open>setError\<close>) and the store. \<open>parse\<close> stands for
  \<open>new Date(text)\<close> on a string, \<open>None\<close> being an invalid date.
\<close>

record Project =
  p_id :: string
  p_name :: string
  p_color :: string

record ManualForm =
  manualDate :: string
  manualStartTime :: string
  manualEndTime :: string
  manualProjectId :: string
  manualTaskName :: string
  manualNote :: string

definition parseDateAndTime :: "(string \<Rightarrow> int option) \<Rightarrow> string \<Rightarrow> string \<Rightarrow> int option" where
  "parseDateAndTime parse dateText timeText = parse (dateText @ ''T'' @ timeText @ '':00'')"

definition manualLogInvalid :: string where
  "manualLogInvalid = ''Manual log needs a valid date and an end time after start time.''"

definition handleManualSubmit ::
  "(string \<Rightarrow> int option) \<Rightarrow> backend \<Rightarrow> string \<Rightarrow> string option \<Rightarrow> Project list \<Rightarrow> ManualForm
   \<Rightarrow> string option \<Rightarrow> string option \<times> backend" where
  "handleManualSubmit parse b newId currentUser projects form err =
     (case currentUser of
        None \<Rightarrow> (err, b)
      | Some uid \<Rightarrow>
          (case (parseDateAndTime parse (manualDate form) (manualStartTime form),
                 parseDateAndTime parse (manualDate form) (manualEndTime form)) of
             (Some startTime', Some endTime') \<Rightarrow>
               if endTime' \<le> startTime' then (Some manualLogInvalid, b)
               else
                 (let selectedProject = find (\<lambda>p. p_id p = manualProjectId form) projects
                  in case addManualLog b newId
                       \<lparr>m_userId = uid,
                        m_projectId = map_option p_id selectedProject,
                        m_projectName =
                          (case selectedProject of Some p \<Rightarrow> p_name p | None \<Rightarrow> ''General''),
                        m_taskName = manualTaskName form,
                        m_note = manualNote form,
                        m_location = None,
                        m_startTime = startTime',
                        m_endTime = endTime'\<rparr> of
                       Inl (Error message) \<Rightarrow> (Some message, b)
                     | Inr b' \<Rightarrow> (None, b'))
           | _ \<Rightarrow> (Some manualLogInvalid, b)))"

subsection \<open>Work weeks\<close>






subsection \<open>Calendar grid\<close>

text \<open>
  \<open>parseMonthInputValue\<close> accepts exactly four digits, a hyphen and two digits (the
  regular expression of the source) with a month from 1 to 12. \<open>calendarYearMonth\<close>
  is the year and month index \<open>buildCalendarCells\<close> works with: the parsed ones, or those
  of the current instant. \<open>ceilDiv a b\<close> is \<open>Math.ceil(a / b)\<close> on whole numbers.
\<close>

record CalendarCell =
  cellKey :: string
  cellDate :: "int option"

definition isDigit :: "char \<Rightarrow> bool" where
  "isDigit c = (c \<in> set ''0123456789'')"

definition parseMonthInputValue :: "string \<Rightarrow> (int \<times> int) option" where
  "parseMonthInputValue v =
     (case v of
        [y1, y2, y3, y4, dash, m1, m2] \<Rightarrow>
          if list_all isDigit [y1, y2, y3, y4] \<and> dash = CHR ''-'' \<and> list_all isDigit [m1, m2]
          then (let year = int (readNat [y1, y2, y3, y4]);
                    month = int (readNat [m1, m2])
                in if month < 1 \<or> month > 12 then None else Some (year, month - 1))
          else None
      | _ \<Rightarrow> None)"

definition ceilDiv :: "int \<Rightarrow> int \<Rightarrow> int" where
  "ceilDiv a b = - ((- a) div b)"

definition calendarYearMonth :: "zone \<Rightarrow> int \<Rightarrow> string \<Rightarrow> int \<times> int" where
  "calendarYearMonth z now monthValue =
     (case parseMonthInputValue monthValue of
        Some (year, monthIndex) \<Rightarrow> (year, monthIndex)
      | None \<Rightarrow> (getFullYear z now, getMonth z now))"

definition buildCalendarCells :: "zone \<Rightarrow> int \<Rightarrow> string \<Rightarrow> CalendarCell list" where
  "buildCalendarCells z now monthValue =
     (let (year, monthIndex) = calendarYearMonth z now monthValue;
          firstOfMonth = newDate z year monthIndex 1;
          firstWeekdayMondayIndex = (getDay z firstOfMonth + 6) mod 7;
          daysInMonth' = getDate z (newDate z year (monthIndex + 1) 0);
          totalCells = ceilDiv (firstWeekdayMondayIndex + daysInMonth') 7 * 7
      in map (\<lambda>index.
                let day = index - firstWeekdayMondayIndex + 1
                in if day < 1 \<or> day > daysInMonth'
                   then \<lparr>cellKey = ''empty-'' @ showInt index, cellDate = None\<rparr>
                   else \<lparr>cellKey = monthValue @ ''-'' @ showInt day,
                         cellDate = Some (newDate z year monthIndex day)\<rparr>)
             [0..totalCells - 1])"

section \<open>Scenarios and example entries\<close>

text \<open>
  \<open>entryAfter\<close> reads an entry back after an operation. \<open>endBreakThenClockOut\<close> is
  \<open>endBreak\<close> followed at once by \<open>clockOut\<close> at the same instant, the second call
  on the entry as the store then holds it.
\<close>

definition entryAfter :: "error + backend \<Rightarrow> string \<Rightarrow> int TimeLog option" where
  "entryAfter r i = (case r of Inl e \<Rightarrow> None | Inr b \<Rightarrow> timeLogs b i)"

definition endBreakThenClockOut :: "backend \<Rightarrow> int TimeLog \<Rightarrow> int \<Rightarrow> error + backend" where
  "endBreakThenClockOut b lg t =
     (case endBreak b lg t of
        Inl e \<Rightarrow> Inl e
      | Inr b1 \<Rightarrow>
          (case timeLogs b1 (logId lg) of
             None \<Rightarrow> Inl (Error ''No document to update'')
           | Some e1 \<Rightarrow> clockOut b1 e1 t))"

text \<open>
  The example day is Monday 2024-03-11; \<open>ex_at h m\<close> is the instant \<open>h:m\<close> of that day.
\<close>

definition ex_at :: "int \<Rightarrow> int \<Rightarrow> int" where
  "ex_at h m = 1710115200000 + h * 3600000 + m * 60000"

definition ex_log :: "int TimeLog" where
  "ex_log =
     \<lparr>logId = ''log1'', userId = ''user1'', projectId = None, projectName = ''General'',
      taskName = ''Invoices'', startTime = ex_at 9 0, endTime = None, totalMinutes = 0,
      breakMinutes = 0, breaks = [], noteText = [], status = Active, location = None,
      breakStartedAt = None, source = Timer, createdAt = Some (ex_at 9 0),
      updatedAt = Some (ex_at 9 0)\<rparr>"

definition ex_backend :: "int TimeLog \<Rightarrow> backend" where
  "ex_backend lg =
     \<lparr>configured = True, serverTime = ex_at 17 0, timeLogs = [logId lg \<mapsto> lg]\<rparr>"

definition ex_input :: "int \<Rightarrow> int \<Rightarrow> ManualLogInput" where
  "ex_input s e =
     \<lparr>m_userId = ''user1'', m_projectId = None, m_projectName = ''General'',
      m_taskName = '' Invoices '', m_note = [], m_location = None,
      m_startTime = s, m_endTime = e\<rparr>"

definition ex_after_break :: "int TimeLog" where
  "ex_after_break =
     ex_log\<lparr>breakMinutes := 30,
            breaks := [\<lparr>breakStart = toISOString (ex_at 12 0),
                       breakEnd = toISOString (ex_at 12 30),
                       durationMinutes = 30\<rparr>]\<rparr>"

definition ex_on_break :: "int \<Rightarrow> int TimeLog" where
  "ex_on_break bm =
     ex_log\<lparr>status := OnBreak, breakStartedAt := Some (ex_at 12 0), breakMinutes := bm\<rparr>"

definition ex_completed :: "int TimeLog" where
  "ex_completed = ex_log\<lparr>status := Completed, endTime := Some (ex_at 17 0), totalMinutes := 480\<rparr>"

definition ex_form :: "string \<Rightarrow> string \<Rightarrow> ManualForm" where
  "ex_form s e =
     \<lparr>manualDate = ''2024-03-11'', manualStartTime = s, manualEndTime = e,
      manualProjectId = [], manualTaskName = ''Invoices'', manualNote = []\<rparr>"

definition ex_parse :: "string \<Rightarrow> int option" where
  "ex_parse s =
     (if s = ''2024-03-11T09:00:00'' then Some (ex_at 9 0)
      else if s = ''2024-03-11T17:00:00'' then Some (ex_at 17 0)
      else None)"



text \<open>
  Three time zones. \<open>ex_utc\<close> has no transition. \<open>ex_santiago\<close> is America/Santiago
  around 2024-09-08: four hours behind UTC until Sunday 2024-09-08, 04:00 UTC (local
  midnight), three hours behind from then on, so that the local times from 00:00 to
  01:00 of that Sunday do not exist. \<open>ex_nuuk\<close> is America/Nuuk around 2024-03-30: two
  hours behind UTC until Sunday 2024-03-31, 01:00 UTC (Saturday 23:00 local), one hour
  behind from then on, so that the local times from 23:00 to 24:00 of that Saturday do
  not exist.
\<close>

definition ex_utc :: zone where
  "ex_utc = \<lparr>baseOffset = 0, transitions = []\<rparr>"

definition ex_santiago :: zone where
  "ex_santiago = \<lparr>baseOffset = - 14400000, transitions = [(1725768000000, - 10800000)]\<rparr>"



section \<open>The calendar is a bijection between days and dates\<close>

declare yearUp.simps [simp del] yearDown.simps [simp del]

lemma yearUp_spec:
  "DayFromYear y \<le> d \<Longrightarrow>
   DayFromYear (yearUp y d) \<le> d \<and> d < DayFromYear (yearUp y d + 1)"
proof (induction y d rule: yearUp.induct)
  case (1 y d)
  show ?case
  proof (cases "DayFromYear (y + 1) \<le> d")
    case True
    with "1.IH" show ?thesis by (simp add: yearUp.simps [of y d])
  next
    case False
    with "1.prems" show ?thesis by (simp add: yearUp.simps [of y d])
  qed
qed

lemma yearDown_spec:
  "d < DayFromYear (y + 1) \<Longrightarrow>
   DayFromYear (yearDown y d) \<le> d \<and> d < DayFromYear (yearDown y d + 1)"
proof (induction y d rule: yearDown.induct)
  case (1 y d)
  show ?case
  proof (cases "d < DayFromYear y")
    case True
    with "1.IH" show ?thesis by (simp add: yearDown.simps [of y d])
  next
    case False
    with "1.prems" show ?thesis by (simp add: yearDown.simps [of y d])
  qed
qed

lemma YearFromDay_bounds:
  "DayFromYear (YearFromDay d) \<le> d \<and> d < DayFromYear (YearFromDay d + 1)"
proof (cases "0 \<le> d")
  case True
  then have "DayFromYear 1970 \<le> d" by (simp add: DayFromYear_def)
  from yearUp_spec [OF this] True show ?thesis by (simp add: YearFromDay_def)
next
  case False
  then have "d < DayFromYear (1970 + 1)" by (simp add: DayFromYear_def)
  from yearDown_spec [OF this] False show ?thesis by (simp add: YearFromDay_def)
qed

lemma DayFromYear_mono: "y \<le> y' \<Longrightarrow> DayFromYear y \<le> DayFromYear y'"
proof (induction y' rule: int_ge_induct)
  case base
  show ?case by simp
next
  case (step i)
  then show ?case using DaysInYear_ge [of i] by (simp add: DayFromYear_Suc)
qed

lemma YearFromDay_unique:
  assumes lo: "DayFromYear y \<le> d" and hi: "d < DayFromYear (y + 1)"
  shows "YearFromDay d = y"
proof (rule ccontr)
  assume ne: "YearFromDay d \<noteq> y"
  note b = YearFromDay_bounds [of d]
  show False
  proof (cases "YearFromDay d < y")
    case True
    then have "DayFromYear (YearFromDay d + 1) \<le> DayFromYear y"
      by (intro DayFromYear_mono) simp
    with b lo show False by linarith
  next
    case False
    with ne have "DayFromYear (y + 1) \<le> DayFromYear (YearFromDay d)"
      by (intro DayFromYear_mono) simp
    with b hi show False by linarith
  qed
qed

lemma leapDays_range: "0 \<le> leapDays y \<and> leapDays y \<le> 1"
  by (simp add: leapDays_def)


lemma month_cases:
  "0 \<le> (m::int) \<Longrightarrow> m < 12 \<Longrightarrow>
   m = 0 \<or> m = 1 \<or> m = 2 \<or> m = 3 \<or> m = 4 \<or> m = 5 \<or> m = 6 \<or> m = 7 \<or> m = 8 \<or> m = 9 \<or> m = 10 \<or> m = 11"
  by arith

lemma monthOfDay_unique:
  assumes m: "0 \<le> m" "m < 12" and L: "0 \<le> L" "L \<le> 1"
    and w: "monthStart L m \<le> w" "w < monthStart L (m + 1)"
  shows "monthOfDay L w = m"
  using month_cases [OF m] w L
  apply (elim disjE)
  apply (simp_all add: monthStart_def monthOfDay_def)
  done

lemma monthOfDay_range: "0 \<le> monthOfDay L w \<and> monthOfDay L w < 12"
  by (simp add: monthOfDay_def)


lemma monthStart_range: "0 \<le> L \<Longrightarrow> 0 \<le> monthStart L m \<and> monthStart L m \<le> 365 + L"
  by (simp add: monthStart_def)


lemma MonthFromDay_range: "0 \<le> MonthFromDay d \<and> MonthFromDay d < 12"
  by (simp add: MonthFromDay_def monthOfDay_range)



lemma fields_MakeDay:
  assumes m: "0 \<le> m" "m < 12" and k: "1 \<le> k" "k \<le> daysInMonth y m"
  shows "YearFromDay (MakeDay y m k) = y \<and> MonthFromDay (MakeDay y m k) = m
         \<and> DateFromDay (MakeDay y m k) = k"
proof -
  let ?L = "leapDays y"
  let ?d = "MakeDay y m k"
  have L: "0 \<le> ?L" "?L \<le> 1" using leapDays_range by simp_all
  from m have dm: "m div 12 = 0" "m mod 12 = m" by simp_all
  have d: "?d = DayFromYear y + (monthStart ?L m + k - 1)"
    by (simp add: MakeDay_def dm)
  have diy: "DaysInYear y = 365 + ?L" by (simp add: DaysInYear_def leapDays_def)
  have lo: "monthStart ?L m \<le> monthStart ?L m + k - 1" using k by simp
  have hi: "monthStart ?L m + k - 1 < monthStart ?L (m + 1)"
    using k by (simp add: daysInMonth_def)
  have lo0: "0 \<le> monthStart ?L m + k - 1"
    using lo monthStart_range [of ?L m] L by linarith
  have hi0: "monthStart ?L m + k - 1 < 365 + ?L"
    using hi monthStart_range [of ?L "m + 1"] L by linarith
  have yr: "YearFromDay ?d = y"
    by (rule YearFromDay_unique) (use lo0 hi0 d diy in \<open>simp_all add: DayFromYear_Suc\<close>)
  have w: "DayWithinYear ?d = monthStart ?L m + k - 1"
    unfolding DayWithinYear_def yr by (simp add: d)
  have il: "InLeapYear ?d = ?L" by (simp add: InLeapYear_def yr)
  have mo: "MonthFromDay ?d = m"
    unfolding MonthFromDay_def w il by (rule monthOfDay_unique [OF m L lo hi])
  have "DateFromDay ?d = k" by (simp add: DateFromDay_def w il mo)
  with yr mo show ?thesis by simp
qed

subsection \<open>Day keys determine the day\<close>



















lemma fixed_zone:
  assumes "transitions z = []"
  shows "LocalTime z t = t + baseOffset z" and "UTC z lt = lt - baseOffset z"
    and "localTimeExists z lt"
  using assms by (simp_all add: LocalTime_def UTC_def localTimeExists_def)


lemma Day_mult: "Day (d * msPerDay) = d" "TimeWithinDay (d * msPerDay) = 0"
  by (simp_all add: Day_def TimeWithinDay_def msPerDay_def)


lemma TimeWithinDay_shift: "TimeWithinDay (t - k * msPerDay) = TimeWithinDay t"
  using mod_mult_self1 [of t "- k" msPerDay] by (simp add: TimeWithinDay_def)

lemma Day_within:
  assumes "0 \<le> r" "r < msPerDay"
  shows "Day (d * msPerDay + r) = d" and "TimeWithinDay (d * msPerDay + r) = r"
proof -
  have e: "d * msPerDay + r = msPerDay * d + r" by simp
  show "Day (d * msPerDay + r) = d"
    unfolding Day_def by (rule int_div_pos_eq [OF e assms])
  show "TimeWithinDay (d * msPerDay + r) = r"
    unfolding TimeWithinDay_def by (rule int_mod_pos_eq [OF e assms])
qed





lemma newDate_local: "newDate z y m k = UTC z (MakeDay (dateYear y) m k * msPerDay)"
  by (simp add: newDate_def MakeDate_def MakeTime_def)

section \<open>Duration calculator\<close>

text \<open>
  C1. For every entry and every current instant, \<open>calculateWorkedMilliseconds\<close> returns a
  value that is not negative, whatever the order of start and end and however large the
  recorded breaks; the function is total, so it never throws. With status on-break and no
  break start recorded, the running break counts 0: the result is the gross time minus the
  stored breaks, cut off at 0.
\<close>

theorem calculateWorkedMilliseconds_nonneg:
  "0 \<le> calculateWorkedMilliseconds lg now
   \<and> calculateWorkedMilliseconds (lg\<lparr>status := OnBreak, breakStartedAt := None\<rparr>) now
       = max 0 (max 0 ((case endTime lg of Some e \<Rightarrow> e | None \<Rightarrow> now) - startTime lg)
                - max 0 (breakMinutes lg) * 60000)"
  by (simp add: calculateWorkedMilliseconds_def Let_def)

text \<open>
  C4. Worked minutes are the worked milliseconds divided by 60000, rounded down. For an
  entry with an end instant, the display minutes are the larger of the persisted
  \<open>totalMinutes\<close> and the worked minutes, so never less than the persisted snapshot; for
  an entry without an end instant they are the worked minutes.
\<close>

theorem getLogMinutes_display:
  "calculateWorkedMinutes lg now = calculateWorkedMilliseconds lg now div 60000
   \<and> (endTime lg \<noteq> None \<longrightarrow>
        getLogMinutes lg now = max (totalMinutes lg) (calculateWorkedMinutes lg now)
        \<and> totalMinutes lg \<le> getLogMinutes lg now)
   \<and> (endTime lg = None \<longrightarrow> getLogMinutes lg now = calculateWorkedMinutes lg now)"
  by (auto simp add: getLogMinutes_def calculateWorkedMinutes_def)

theorem getLogMinutes_display_witness:
  "endTime (ex_completed\<lparr>totalMinutes := 500\<rparr>) \<noteq> None
   \<and> calculateWorkedMinutes (ex_completed\<lparr>totalMinutes := 500\<rparr>) (ex_at 18 0) = 480
   \<and> getLogMinutes (ex_completed\<lparr>totalMinutes := 500\<rparr>) (ex_at 18 0) = 500
   \<and> endTime ex_log = None
   \<and> getLogMinutes ex_log (ex_at 18 0) = 540"
proof -
  have 1: "endTime (ex_completed\<lparr>totalMinutes := 500\<rparr>) \<noteq> None" "endTime ex_log = None"
    by (simp_all add: ex_completed_def ex_log_def)
  have 2: "calculateWorkedMilliseconds (ex_completed\<lparr>totalMinutes := 500\<rparr>) (ex_at 18 0) = 28800000"
    "calculateWorkedMilliseconds ex_log (ex_at 18 0) = 32400000"
    by (simp_all add: calculateWorkedMilliseconds_def ex_completed_def ex_log_def ex_at_def)
  have 3: "totalMinutes (ex_completed\<lparr>totalMinutes := 500\<rparr>) = 500" by simp
  from getLogMinutes_display [of "ex_completed\<lparr>totalMinutes := 500\<rparr>" "ex_at 18 0"]
    getLogMinutes_display [of ex_log "ex_at 18 0"] 1
  show ?thesis unfolding 2 3 by simp
qed

section \<open>Entry lifecycle\<close>

lemma gross_clamp: "0 \<le> b \<Longrightarrow> max 0 (max 0 g - b) = max (0::int) (g - b)"
  by (simp add: max_def)

text \<open>
  C2. On a configured store that holds the entry, \<open>clockOut\<close> at instant \<open>t\<close> leaves
  the entry completed, with end \<open>t\<close>, no break start, and \<open>totalMinutes\<close> equal to
  \<open>max 0 (floor ((t - startTime) / 60000) - breakMinutes)\<close>, where \<open>breakMinutes\<close> is the
  new value: the stored break minutes (cut off at 0) plus, when the entry is on break with
  a break start recorded, the minutes of the break in progress up to \<open>t\<close>, which is also
  appended to the list of breaks. The witness is the entry that starts at 09:00, has the
  break 12:00 to 12:30 recorded and is clocked out at 17:00: gross 480, breaks 30, total
  450.
\<close>

theorem clockOut_result:
  assumes "configured b" and "timeLogs b (logId lg) = Some stored"
  shows "\<exists>b' e. clockOut b lg t = Inr b' \<and> timeLogs b' (logId lg) = Some e
           \<and> status e = Completed \<and> endTime e = Some t \<and> breakStartedAt e = None
           \<and> totalMinutes e = max 0 ((t - startTime lg) div 60000 - breakMinutes e)
           \<and> (breakMinutes e, breaks e) =
               (case breakStartedAt lg of
                  Some started \<Rightarrow>
                    if status lg = OnBreak
                    then (max 0 (breakMinutes lg) + max 0 ((t - started) div 60000),
                          breaks lg @ [\<lparr>breakStart = toISOString started, breakEnd = toISOString t,
                                        durationMinutes = max 0 ((t - started) div 60000)\<rparr>])
                    else (max 0 (breakMinutes lg), breaks lg)
                | None \<Rightarrow> (max 0 (breakMinutes lg), breaks lg))"
  using assms
  by (auto simp add: clockOut_def requireDb_def updateDoc_def Let_def gross_clamp
      add_nonneg_nonneg split: option.splits)

theorem clockOut_result_witness:
  "configured (ex_backend ex_after_break)
   \<and> timeLogs (ex_backend ex_after_break) (logId ex_after_break) = Some ex_after_break
   \<and> (ex_at 17 0 - startTime ex_after_break) div 60000 = 480
   \<and> (\<exists>b' e. clockOut (ex_backend ex_after_break) ex_after_break (ex_at 17 0) = Inr b'
        \<and> timeLogs b' ''log1'' = Some e \<and> status e = Completed \<and> endTime e = Some (ex_at 17 0)
        \<and> breakStartedAt e = None \<and> breakMinutes e = 30 \<and> totalMinutes e = 450
        \<and> breaks e = breaks ex_after_break)"
proof -
  let ?lg = "ex_after_break"
  have c: "configured (ex_backend ?lg)" by (simp add: ex_backend_def)
  have s: "timeLogs (ex_backend ?lg) (logId ?lg) = Some ?lg" by (simp add: ex_backend_def)
  have g: "(ex_at 17 0 - startTime ?lg) div 60000 = 480"
    by (simp add: ex_after_break_def ex_log_def ex_at_def)
  have i: "logId ?lg = ''log1''" "breakStartedAt ?lg = None" "breakMinutes ?lg = 30"
    by (simp_all add: ex_after_break_def ex_log_def)
  from clockOut_result [OF c s, of "ex_at 17 0"] g c s show ?thesis
    unfolding i by auto
qed

text \<open>
  C3. For every entry on break with a break start recorded, \<open>endBreak\<close> at \<open>t\<close>
  followed at once by \<open>clockOut\<close> at \<open>t\<close> leaves the store exactly as a single
  \<open>clockOut\<close> at \<open>t\<close> does: the same break minutes, the same list of breaks, the
  same total. An entry is an entry of the data model: its break minutes are not negative,
  which is what \<open>normalizeTimeLog\<close> hands out (lemma \<open>normalizeTimeLog_numbers\<close>).
  The witness is a break from 12:00 to 12:30 on top of 15 stored minutes: 45 break
  minutes on both paths.
\<close>

theorem endBreak_clockOut_decomposition:
  assumes "configured b" and "timeLogs b (logId lg) = Some lg"
    and "status lg = OnBreak" and "breakStartedAt lg = Some started"
    and "0 \<le> breakMinutes lg"
  shows "endBreakThenClockOut b lg t = clockOut b lg t
         \<and> (\<exists>b' e. clockOut b lg t = Inr b' \<and> timeLogs b' (logId lg) = Some e
               \<and> breakMinutes e = breakMinutes lg + max 0 ((t - started) div 60000))"
  using assms
  by (simp add: endBreakThenClockOut_def endBreak_def clockOut_def requireDb_def updateDoc_def
      Let_def add_nonneg_nonneg)

theorem endBreak_clockOut_decomposition_witness:
  "configured (ex_backend (ex_on_break 15))
   \<and> timeLogs (ex_backend (ex_on_break 15)) (logId (ex_on_break 15)) = Some (ex_on_break 15)
   \<and> status (ex_on_break 15) = OnBreak
   \<and> breakStartedAt (ex_on_break 15) = Some (ex_at 12 0)
   \<and> 0 \<le> breakMinutes (ex_on_break 15)
   \<and> endBreakThenClockOut (ex_backend (ex_on_break 15)) (ex_on_break 15) (ex_at 12 30)
       = clockOut (ex_backend (ex_on_break 15)) (ex_on_break 15) (ex_at 12 30)
   \<and> map_option breakMinutes
         (entryAfter (clockOut (ex_backend (ex_on_break 15)) (ex_on_break 15) (ex_at 12 30)) ''log1'')
       = Some 45"
proof -
  let ?lg = "ex_on_break 15"
  have 1: "configured (ex_backend ?lg)" by (simp add: ex_backend_def)
  have 2: "timeLogs (ex_backend ?lg) (logId ?lg) = Some ?lg" by (simp add: ex_backend_def)
  have 3: "status ?lg = OnBreak" by (simp add: ex_on_break_def)
  have 4: "breakStartedAt ?lg = Some (ex_at 12 0)" by (simp add: ex_on_break_def)
  have 5: "0 \<le> breakMinutes ?lg" by (simp add: ex_on_break_def)
  have 6: "logId ?lg = ''log1''" by (simp add: ex_on_break_def ex_log_def)
  have 7: "breakMinutes ?lg + max 0 ((ex_at 12 30 - ex_at 12 0) div 60000) = 45"
    by (simp add: ex_on_break_def ex_at_def)
  from endBreak_clockOut_decomposition [OF 1 2 3 4 5, of "ex_at 12 30"] 1 2 3 4 5 show ?thesis
    unfolding 6 7 by (auto simp add: entryAfter_def)
qed

text \<open>
  C7, as amended. \<open>startBreak\<close> does not look at the status of the entry: on a configured
  store that holds the entry, whatever its status, it succeeds, sets the status to
  on-break and the break start to the given instant, stamps \<open>updatedAt\<close>, and changes
  nothing else.
\<close>

theorem startBreak_unconditional:
  assumes "configured b" and "timeLogs b i = Some e"
  shows "startBreak b i t =
           Inr (b\<lparr>timeLogs := (timeLogs b)(i \<mapsto>
                  e\<lparr>status := OnBreak, breakStartedAt := Some t,
                    updatedAt := Some (serverTime b)\<rparr>)\<rparr>)"
  using assms by (simp add: startBreak_def requireDb_def updateDoc_def)

theorem startBreak_unconditional_witness:
  "configured (ex_backend (ex_on_break 0))
   \<and> timeLogs (ex_backend (ex_on_break 0)) ''log1'' = Some (ex_on_break 0)
   \<and> startBreak (ex_backend (ex_on_break 0)) ''log1'' (ex_at 13 0) =
       Inr ((ex_backend (ex_on_break 0))\<lparr>timeLogs := (timeLogs (ex_backend (ex_on_break 0)))(''log1'' \<mapsto>
              (ex_on_break 0)\<lparr>status := OnBreak, breakStartedAt := Some (ex_at 13 0),
                 updatedAt := Some (serverTime (ex_backend (ex_on_break 0)))\<rparr>)\<rparr>)"
proof -
  have c: "configured (ex_backend (ex_on_break 0))" by (simp add: ex_backend_def)
  have s: "timeLogs (ex_backend (ex_on_break 0)) ''log1'' = Some (ex_on_break 0)"
    by (simp add: ex_backend_def ex_on_break_def ex_log_def)
  from startBreak_unconditional [OF c s, of "ex_at 13 0"] c s show ?thesis by simp
qed

text \<open>
  C7 as stated fails on a completed entry: \<open>startBreak\<close> returns no error and the entry
  is changed to on-break.
\<close>

theorem startBreak_completed_counterexample:
  "status ex_completed = Completed
   \<and> entryAfter (startBreak (ex_backend ex_completed) ''log1'' (ex_at 18 0)) ''log1''
       = Some (ex_completed\<lparr>status := OnBreak, breakStartedAt := Some (ex_at 18 0),
                 updatedAt := Some (ex_at 17 0)\<rparr>)"
  by (simp add: entryAfter_def startBreak_def requireDb_def updateDoc_def ex_backend_def
      ex_completed_def ex_log_def)

text \<open>
  C8, as amended. \<open>addManualLog\<close> does not compare the two instants: on a configured
  store it always creates a completed entry with the given start and end, no breaks, and
  \<open>totalMinutes = max 0 (floor ((end - start) / 60000))\<close>. The check is in the form's
  submit handler: when the end is not after the start, \<open>handleManualSubmit\<close> sets its
  error message and leaves the store as it was; when the end is after the start it
  creates the entry, with \<open>totalMinutes = floor ((end - start) / 60000)\<close>.
\<close>

theorem manual_log_validation:
  "(configured b \<longrightarrow>
      (\<exists>b' e. addManualLog b newId input = Inr b' \<and> timeLogs b' newId = Some e
         \<and> status e = Completed \<and> endTime e = Some (m_endTime input)
         \<and> startTime e = m_startTime input
         \<and> totalMinutes e = max 0 ((m_endTime input - m_startTime input) div 60000)
         \<and> breakMinutes e = 0 \<and> breaks e = []))
   \<and> (parseDateAndTime parse (manualDate form) (manualStartTime form) = Some s
        \<and> parseDateAndTime parse (manualDate form) (manualEndTime form) = Some e' \<and> e' \<le> s
      \<longrightarrow> handleManualSubmit parse b newId (Some uid) projects form err
            = (Some manualLogInvalid, b))
   \<and> (configured b
        \<and> parseDateAndTime parse (manualDate form) (manualStartTime form) = Some s
        \<and> parseDateAndTime parse (manualDate form) (manualEndTime form) = Some e' \<and> s < e'
      \<longrightarrow> (\<exists>b' e. handleManualSubmit parse b newId (Some uid) projects form err = (None, b')
            \<and> timeLogs b' newId = Some e \<and> status e = Completed \<and> endTime e = Some e'
            \<and> totalMinutes e = (e' - s) div 60000 \<and> 0 \<le> totalMinutes e
            \<and> breakMinutes e = 0 \<and> breaks e = []))"
proof (intro conjI impI)
  assume "configured b"
  then show "\<exists>b' e. addManualLog b newId input = Inr b' \<and> timeLogs b' newId = Some e
         \<and> status e = Completed \<and> endTime e = Some (m_endTime input)
         \<and> startTime e = m_startTime input
         \<and> totalMinutes e = max 0 ((m_endTime input - m_startTime input) div 60000)
         \<and> breakMinutes e = 0 \<and> breaks e = []"
    by (simp add: addManualLog_def requireDb_def addDoc_def Let_def)
next
  assume "parseDateAndTime parse (manualDate form) (manualStartTime form) = Some s
        \<and> parseDateAndTime parse (manualDate form) (manualEndTime form) = Some e' \<and> e' \<le> s"
  then show "handleManualSubmit parse b newId (Some uid) projects form err
            = (Some manualLogInvalid, b)"
    by (simp add: handleManualSubmit_def)
next
  assume a: "configured b
        \<and> parseDateAndTime parse (manualDate form) (manualStartTime form) = Some s
        \<and> parseDateAndTime parse (manualDate form) (manualEndTime form) = Some e' \<and> s < e'"
  then have "0 \<le> (e' - s) div 60000" by (simp add: pos_imp_zdiv_nonneg_iff)
  with a show "\<exists>b' e. handleManualSubmit parse b newId (Some uid) projects form err = (None, b')
            \<and> timeLogs b' newId = Some e \<and> status e = Completed \<and> endTime e = Some e'
            \<and> totalMinutes e = (e' - s) div 60000 \<and> 0 \<le> totalMinutes e
            \<and> breakMinutes e = 0 \<and> breaks e = []"
    by (simp add: handleManualSubmit_def addManualLog_def requireDb_def addDoc_def Let_def)
qed

theorem manual_log_validation_witness:
  "configured (ex_backend ex_log)
   \<and> map_option totalMinutes
        (entryAfter (addManualLog (ex_backend ex_log) ''log2'' (ex_input (ex_at 9 0) (ex_at 17 0))) ''log2'')
       = Some 480
   \<and> parseDateAndTime ex_parse (manualDate (ex_form ''17:00'' ''09:00'')) (manualStartTime (ex_form ''17:00'' ''09:00''))
       = Some (ex_at 17 0)
   \<and> parseDateAndTime ex_parse (manualDate (ex_form ''17:00'' ''09:00'')) (manualEndTime (ex_form ''17:00'' ''09:00''))
       = Some (ex_at 9 0)
   \<and> ex_at 9 0 \<le> ex_at 17 0
   \<and> handleManualSubmit ex_parse (ex_backend ex_log) ''log2'' (Some ''user1'') [] (ex_form ''17:00'' ''09:00'') None
       = (Some manualLogInvalid, ex_backend ex_log)
   \<and> parseDateAndTime ex_parse (manualDate (ex_form ''09:00'' ''17:00'')) (manualStartTime (ex_form ''09:00'' ''17:00''))
       = Some (ex_at 9 0)
   \<and> parseDateAndTime ex_parse (manualDate (ex_form ''09:00'' ''17:00'')) (manualEndTime (ex_form ''09:00'' ''17:00''))
       = Some (ex_at 17 0)
   \<and> ex_at 9 0 < ex_at 17 0
   \<and> map_option totalMinutes
        (entryAfter (Inr (snd (handleManualSubmit ex_parse (ex_backend ex_log) ''log2'' (Some ''user1'') []
            (ex_form ''09:00'' ''17:00'') None))) ''log2'')
       = Some 480"
proof -
  have c: "configured (ex_backend ex_log)" by (simp add: ex_backend_def)
  have p1: "parseDateAndTime ex_parse (manualDate (ex_form ''17:00'' ''09:00'')) (manualStartTime (ex_form ''17:00'' ''09:00''))
       = Some (ex_at 17 0)"
    and p2: "parseDateAndTime ex_parse (manualDate (ex_form ''17:00'' ''09:00'')) (manualEndTime (ex_form ''17:00'' ''09:00''))
       = Some (ex_at 9 0)"
    and p3: "parseDateAndTime ex_parse (manualDate (ex_form ''09:00'' ''17:00'')) (manualStartTime (ex_form ''09:00'' ''17:00''))
       = Some (ex_at 9 0)"
    and p4: "parseDateAndTime ex_parse (manualDate (ex_form ''09:00'' ''17:00'')) (manualEndTime (ex_form ''09:00'' ''17:00''))
       = Some (ex_at 17 0)"
    by (simp_all add: parseDateAndTime_def ex_parse_def ex_form_def)
  have o: "ex_at 9 0 \<le> ex_at 17 0" "ex_at 9 0 < ex_at 17 0" by (simp_all add: ex_at_def)
  have d: "(ex_at 17 0 - ex_at 9 0) div 60000 = 480" by (simp add: ex_at_def)
  note a = manual_log_validation [of "ex_backend ex_log" "''log2''" "ex_input (ex_at 9 0) (ex_at 17 0)"
      ex_parse "ex_form ''17:00'' ''09:00''" "ex_at 17 0" "ex_at 9 0" "''user1''" "[]" None]
  note b = manual_log_validation [of "ex_backend ex_log" "''log2''" "ex_input (ex_at 9 0) (ex_at 17 0)"
      ex_parse "ex_form ''09:00'' ''17:00''" "ex_at 9 0" "ex_at 17 0" "''user1''" "[]" None]
  have 1: "map_option totalMinutes
        (entryAfter (addManualLog (ex_backend ex_log) ''log2'' (ex_input (ex_at 9 0) (ex_at 17 0))) ''log2'')
       = Some 480"
    using a c d by (auto simp add: entryAfter_def ex_input_def)
  have 2: "handleManualSubmit ex_parse (ex_backend ex_log) ''log2'' (Some ''user1'') [] (ex_form ''17:00'' ''09:00'') None
       = (Some manualLogInvalid, ex_backend ex_log)"
    using a p1 p2 o by simp
  have 3: "map_option totalMinutes
        (entryAfter (Inr (snd (handleManualSubmit ex_parse (ex_backend ex_log) ''log2'' (Some ''user1'') []
            (ex_form ''09:00'' ''17:00'') None))) ''log2'')
       = Some 480"
    using b c p3 p4 o d by (auto simp add: entryAfter_def)
  from c 1 p1 p2 o 2 p3 p4 3 show ?thesis by simp
qed

text \<open>
  C8 as stated fails on \<open>addManualLog\<close> itself: with the end at 09:00 before the start
  at 17:00 it returns no error and stores a completed entry of 0 minutes.
\<close>

theorem addManualLog_unvalidated_counterexample:
  "ex_at 9 0 \<le> ex_at 17 0
   \<and> map_option (\<lambda>e. (status e, startTime e, endTime e, totalMinutes e))
        (entryAfter (addManualLog (ex_backend ex_log) ''log2'' (ex_input (ex_at 17 0) (ex_at 9 0))) ''log2'')
       = Some (Completed, ex_at 17 0, Some (ex_at 9 0), 0)"
  by (simp add: entryAfter_def addManualLog_def requireDb_def addDoc_def Let_def ex_backend_def
      ex_input_def ex_at_def)

section \<open>Storage normalisation\<close>

lemma normalized_number:
  "isWholeNonNeg (jsMax (Fin 0) (jsFloor (readNumber v (Fin 0))))
   \<or> (v = Num PosInf \<and> jsMax (Fin 0) (jsFloor (readNumber v (Fin 0))) = PosInf)"
proof (cases v)
  case (Num n)
  then show ?thesis
    by (cases n) (auto simp add: readNumber_def jsFloor_def isWholeNonNeg_def max_def)
qed (simp_all add: readNumber_def jsFloor_def isWholeNonNeg_def)

lemma normalizeBreaks_durations:
  "r \<in> set (normalizeBreaks v) \<Longrightarrow>
   isWholeNonNeg (durationMinutes r) \<or> durationMinutes r = PosInf"
proof (cases v)
  case (Arr xs)
  assume "r \<in> set (normalizeBreaks v)"
  with Arr obtain x where "normalizeBreak x = Some r"
    by (auto simp add: normalizeBreaks_def)
  then show ?thesis
    using normalized_number [of "getProp x ''durationMinutes''"]
    by (auto simp add: normalizeBreak_def split: if_splits raw.splits)
qed (simp_all add: normalizeBreaks_def)

lemma normalizeTimeLog_numbers:
  "(isWholeNonNeg (totalMinutes (normalizeTimeLog parse now i data))
      \<or> totalMinutes (normalizeTimeLog parse now i data) = PosInf)
   \<and> (isWholeNonNeg (breakMinutes (normalizeTimeLog parse now i data))
      \<or> breakMinutes (normalizeTimeLog parse now i data) = PosInf)
   \<and> (\<forall>r \<in> set (breaks (normalizeTimeLog parse now i data)).
        isWholeNonNeg (durationMinutes r) \<or> durationMinutes r = PosInf)"
  using normalized_number [of "docField data ''totalMinutes''"]
    normalized_number [of "docField data ''breakMinutes''"]
    normalizeBreaks_durations [of _ "docField data ''breaks''"]
  by (auto simp add: normalizeTimeLog_def Let_def)

lemma normalizeTimeLog_startTime:
  "startTime (normalizeTimeLog parse now i data) =
     (case readDate parse (docField data ''startTime'') of
        Some t \<Rightarrow> t
      | None \<Rightarrow> (case readDate parse (docField data ''createdAt'') of
                   Some t \<Rightarrow> t | None \<Rightarrow> now))"
  by (simp add: normalizeTimeLog_def Let_def)

lemma normalizeTimeLog_status:
  "status (normalizeTimeLog parse now i data) =
     (if docField data ''status'' = Str ''active'' then Active
      else if docField data ''status'' = Str ''on-break'' then OnBreak
      else Completed)"
  by (simp add: normalizeTimeLog_def normalizeStatus_def Let_def)

text \<open>
  C10. A raw document whose \<open>totalMinutes\<close> is \<open>+Infinity\<close> is normalised to an entry
  whose \<open>totalMinutes\<close> is \<open>+Infinity\<close>, which is not a whole number: \<open>readNumber\<close>
  rejects \<open>NaN\<close> only, and \<open>Math.floor\<close> and \<open>Math.max\<close> keep \<open>+Infinity\<close>. The
  same holds for \<open>breakMinutes\<close> and for the duration of a break record. For every other
  raw value the three are whole and not negative (lemma \<open>normalizeTimeLog_numbers\<close>); the
  start time and the status are as the claim says.
\<close>

theorem normalizeTimeLog_infinity:
  "totalMinutes (normalizeTimeLog ex_parse (ex_at 9 0) ''log1''
       [(''startTime'', TimestampV (ex_at 9 0)), (''totalMinutes'', Num PosInf),
        (''breakMinutes'', Num PosInf),
        (''breaks'', Arr [Obj [(''startTime'', Str ''a''), (''endTime'', Str ''b''),
                               (''durationMinutes'', Num PosInf)]]),
        (''status'', Str ''active'')]) = PosInf
   \<and> breakMinutes (normalizeTimeLog ex_parse (ex_at 9 0) ''log1''
       [(''startTime'', TimestampV (ex_at 9 0)), (''totalMinutes'', Num PosInf),
        (''breakMinutes'', Num PosInf),
        (''breaks'', Arr [Obj [(''startTime'', Str ''a''), (''endTime'', Str ''b''),
                               (''durationMinutes'', Num PosInf)]]),
        (''status'', Str ''active'')]) = PosInf
   \<and> map durationMinutes (breaks (normalizeTimeLog ex_parse (ex_at 9 0) ''log1''
       [(''startTime'', TimestampV (ex_at 9 0)), (''totalMinutes'', Num PosInf),
        (''breakMinutes'', Num PosInf),
        (''breaks'', Arr [Obj [(''startTime'', Str ''a''), (''endTime'', Str ''b''),
                               (''durationMinutes'', Num PosInf)]]),
        (''status'', Str ''active'')])) = [PosInf]
   \<and> \<not> isWholeNonNeg PosInf"
  by (simp add: normalizeTimeLog_def normalizeBreaks_def normalizeBreak_def isObject_def
      getProp_def docField_def readNumber_def jsFloor_def isWholeNonNeg_def Let_def)

section \<open>Calendar grid\<close>

lemma calendarYearMonth_range:
  "calendarYearMonth z now mv = (y, m) \<Longrightarrow> 0 \<le> m \<and> m < 12"
  using MonthFromDay_range [of "Day (LocalTime z now)"]
  by (auto simp add: calendarYearMonth_def parseMonthInputValue_def getMonth_def Let_def
      split: option.splits list.splits if_splits)

lemma daysInMonth_range:
  assumes "0 \<le> m" "m < 12"
  shows "28 \<le> daysInMonth y m \<and> daysInMonth y m \<le> 31"
  using month_cases [OF assms] leapDays_range [of y]
  apply (elim disjE)
  apply (simp_all add: daysInMonth_def monthStart_def)
  done

lemma MakeDay_zero:
  assumes m: "0 \<le> m" "m < 12"
  shows "MakeDay y (m + 1) 0 = MakeDay y m (daysInMonth y m)"
proof (cases "m = 11")
  case True
  have "DaysInYear y = 365 + leapDays y" by (simp add: DaysInYear_def leapDays_def)
  with True show ?thesis
    by (simp add: MakeDay_def daysInMonth_def monthStart_def DayFromYear_Suc)
next
  case False
  with m have "(m + 1) div 12 = 0" "(m + 1) mod 12 = m + 1" "m div 12 = 0" "m mod 12 = m"
    by simp_all
  then show ?thesis by (simp add: MakeDay_def daysInMonth_def)
qed

lemma newDate_fields:
  assumes m: "0 \<le> m" "m < 12" and k: "1 \<le> k" "k \<le> daysInMonth (dateYear y) m"
    and ex: "localTimeExists z (MakeDay (dateYear y) m k * msPerDay)"
  shows "getFullYear z (newDate z y m k) = dateYear y \<and> getMonth z (newDate z y m k) = m
         \<and> getDate z (newDate z y m k) = k \<and> getDay z (newDate z y m k) = WeekDay (MakeDay (dateYear y) m k)
         \<and> TimeWithinDay (LocalTime z (newDate z y m k)) = 0"
proof -
  from ex have "LocalTime z (newDate z y m k) = MakeDay (dateYear y) m k * msPerDay"
    by (simp add: newDate_local localTimeExists_def)
  with fields_MakeDay [OF m k] show ?thesis
    by (simp add: getFullYear_def getMonth_def getDate_def getDay_def Day_mult)
qed

lemma getDate_last:
  assumes m: "0 \<le> m" "m < 12"
    and ex: "localTimeExists z (MakeDay (dateYear y) m (daysInMonth (dateYear y) m) * msPerDay)"
  shows "getDate z (newDate z y (m + 1) 0) = daysInMonth (dateYear y) m"
proof -
  from daysInMonth_range [OF m, of "dateYear y"]
  have k: "1 \<le> daysInMonth (dateYear y) m" "daysInMonth (dateYear y) m \<le> daysInMonth (dateYear y) m"
    by simp_all
  have "newDate z y (m + 1) 0 = newDate z y m (daysInMonth (dateYear y) m)"
    by (simp add: newDate_local MakeDay_zero [OF m])
  with newDate_fields [OF m k ex] show ?thesis by simp
qed

lemma ceilDiv7: "0 \<le> ceilDiv a 7 * 7 - a \<and> ceilDiv a 7 * 7 - a < 7"
  unfolding ceilDiv_def by presburger

text \<open>
  C9, as amended. Let the year the builder works with be outside 0, ..., 99, and let
  local midnight exist in the host's time zone on every day of the month (it does in
  every zone without a transition). Let \<open>offset\<close> be \<open>(weekday of day 1 + 6) mod 7\<close>
  (weekday 0 = Sunday) and \<open>ndays\<close> the number of days the builder computes for the
  month. The grid has exactly \<open>ceil ((offset + ndays) / 7) * 7\<close> cells; the first
  \<open>offset\<close> cells are empty; the next \<open>ndays\<close> cells carry, for
  \<open>k = 1, ..., ndays\<close> in this order, the date built from year, month index and \<open>k\<close>,
  which is at local midnight, in that month of that year, with day of month \<open>k\<close>; all
  cells after them are empty; \<open>offset\<close> and \<open>ndays\<close> are those of the calendar. The
  witness is April 2020, a month of 30 days that starts on a Wednesday: 2 empty cells, 30
  days, 3 empty cells, 35 cells.
\<close>

theorem buildCalendarCells_grid:
  assumes ym: "calendarYearMonth z now monthValue = (year, monthIndex)"
    and yr: "year < 0 \<or> 99 < year"
    and ex: "\<forall>k. 1 \<le> k \<and> k \<le> daysInMonth year monthIndex \<longrightarrow>
               localTimeExists z (MakeDay year monthIndex k * msPerDay)"
  defines "offset \<equiv> (getDay z (newDate z year monthIndex 1) + 6) mod 7"
    and "ndays \<equiv> getDate z (newDate z year (monthIndex + 1) 0)"
    and "cells \<equiv> buildCalendarCells z now monthValue"
  shows "int (length cells) = ceilDiv (offset + ndays) 7 * 7
    \<and> (\<forall>i. 0 \<le> i \<and> i < offset \<longrightarrow> cellDate (cells ! nat i) = None)
    \<and> (\<forall>k. 1 \<le> k \<and> k \<le> ndays \<longrightarrow>
          cellDate (cells ! nat (offset + k - 1)) = Some (newDate z year monthIndex k)
          \<and> getDate z (newDate z year monthIndex k) = k
          \<and> getMonth z (newDate z year monthIndex k) = monthIndex
          \<and> getFullYear z (newDate z year monthIndex k) = year
          \<and> TimeWithinDay (LocalTime z (newDate z year monthIndex k)) = 0)
    \<and> (\<forall>i. offset + ndays \<le> i \<and> i < int (length cells) \<longrightarrow> cellDate (cells ! nat i) = None)
    \<and> offset = (WeekDay (MakeDay year monthIndex 1) + 6) mod 7
    \<and> ndays = daysInMonth year monthIndex"
proof -
  note m = calendarYearMonth_range [OF ym]
  then have m0: "0 \<le> monthIndex" and m12: "monthIndex < 12" by simp_all
  from yr have dy: "dateYear year = year" by (auto simp add: dateYear_def)
  note dr = daysInMonth_range [OF m0 m12, of year]
  have exk: "localTimeExists z (MakeDay (dateYear year) monthIndex k * msPerDay)"
    if "1 \<le> k" "k \<le> daysInMonth year monthIndex" for k
    using ex that by (simp add: dy)
  have nd: "ndays = daysInMonth year monthIndex"
    unfolding ndays_def using getDate_last [OF m0 m12, of z year] exk [of "daysInMonth year monthIndex"] dr
    by (simp add: dy)
  have fields: "getFullYear z (newDate z year monthIndex k) = year
         \<and> getMonth z (newDate z year monthIndex k) = monthIndex
         \<and> getDate z (newDate z year monthIndex k) = k
         \<and> getDay z (newDate z year monthIndex k) = WeekDay (MakeDay year monthIndex k)
         \<and> TimeWithinDay (LocalTime z (newDate z year monthIndex k)) = 0"
    if k: "1 \<le> k" "k \<le> daysInMonth year monthIndex" for k
    using newDate_fields [OF m0 m12, of k year z] k exk [OF k] by (simp add: dy)
  have off: "offset = (WeekDay (MakeDay year monthIndex 1) + 6) mod 7"
    unfolding offset_def using fields [of 1] dr by simp
  have offr: "0 \<le> offset" "offset < 7" by (simp_all add: offset_def)
  let ?total = "ceilDiv (offset + ndays) 7 * 7"
  note c7 = ceilDiv7 [of "offset + ndays"]
  let ?f = "\<lambda>index. let day = index - offset + 1
                in if day < 1 \<or> day > ndays
                   then \<lparr>cellKey = ''empty-'' @ showInt index, cellDate = None\<rparr>
                   else \<lparr>cellKey = monthValue @ ''-'' @ showInt day,
                         cellDate = Some (newDate z year monthIndex day)\<rparr>"
  have cells: "cells = map ?f [0..?total - 1]"
    unfolding cells_def buildCalendarCells_def ym offset_def ndays_def by (simp add: Let_def)
  have tot: "0 \<le> ?total" using c7 offr dr nd by linarith
  have len: "int (length cells) = ?total" using tot by (simp add: cells)
  have nth: "cells ! nat i = ?f i" if "0 \<le> i" "i < ?total" for i
  proof -
    from that have "nat i < length [0..?total - 1]" by simp
    then have "cells ! nat i = ?f ([0..?total - 1] ! nat i)" by (simp add: cells)
    also from that have "[0..?total - 1] ! nat i = i" by (simp add: nth_upto)
    finally show ?thesis .
  qed
  have a: "cellDate (cells ! nat i) = None" if "0 \<le> i \<and> i < offset" for i
  proof -
    from that c7 dr nd have "i < ?total" by linarith
    with that show ?thesis by (simp add: nth Let_def)
  qed
  have b: "cellDate (cells ! nat (offset + k - 1)) = Some (newDate z year monthIndex k)
          \<and> getDate z (newDate z year monthIndex k) = k
          \<and> getMonth z (newDate z year monthIndex k) = monthIndex
          \<and> getFullYear z (newDate z year monthIndex k) = year
          \<and> TimeWithinDay (LocalTime z (newDate z year monthIndex k)) = 0" if "1 \<le> k \<and> k \<le> ndays" for k
  proof -
    from that offr c7 have r: "0 \<le> offset + k - 1" "offset + k - 1 < ?total" by linarith+
    from that have k: "1 \<le> k" "k \<le> daysInMonth year monthIndex"
      by (simp_all add: nd)
    from that have "cellDate (cells ! nat (offset + k - 1)) = Some (newDate z year monthIndex k)"
      by (simp add: nth [OF r] Let_def)
    with fields [OF k] show ?thesis by simp
  qed
  have c: "cellDate (cells ! nat i) = None" if "offset + ndays \<le> i \<and> i < int (length cells)" for i
  proof -
    from that offr dr nd have "0 \<le> i" "i < ?total" by (simp_all add: len)
    with that show ?thesis by (simp add: nth Let_def)
  qed
  from len a b c off nd show ?thesis by simp
qed

theorem buildCalendarCells_grid_witness:
  "calendarYearMonth ex_utc 0 ''2020-04'' = (2020, 3)
   \<and> ((2020::int) < 0 \<or> 99 < (2020::int))
   \<and> localTimeExists ex_utc (MakeDay 2020 3 1 * msPerDay)
   \<and> localTimeExists ex_utc (MakeDay 2020 3 30 * msPerDay)
   \<and> (getDay ex_utc (newDate ex_utc 2020 3 1) + 6) mod 7 = 2
   \<and> getDate ex_utc (newDate ex_utc 2020 (3 + 1) 0) = 30
   \<and> int (length (buildCalendarCells ex_utc 0 ''2020-04'')) = 35
   \<and> cellDate (buildCalendarCells ex_utc 0 ''2020-04'' ! 0) = None
   \<and> cellDate (buildCalendarCells ex_utc 0 ''2020-04'' ! 1) = None
   \<and> cellDate (buildCalendarCells ex_utc 0 ''2020-04'' ! 2) = Some (newDate ex_utc 2020 3 1)
   \<and> getDate ex_utc (newDate ex_utc 2020 3 1) = 1
   \<and> cellDate (buildCalendarCells ex_utc 0 ''2020-04'' ! 31) = Some (newDate ex_utc 2020 3 30)
   \<and> getDate ex_utc (newDate ex_utc 2020 3 30) = 30
   \<and> getFullYear ex_utc (newDate ex_utc 2020 3 30) = 2020
   \<and> cellDate (buildCalendarCells ex_utc 0 ''2020-04'' ! 32) = None
   \<and> cellDate (buildCalendarCells ex_utc 0 ''2020-04'' ! 34) = None"
proof -
  let ?cells = "buildCalendarCells ex_utc 0 ''2020-04''"
  have z: "transitions ex_utc = []" by (simp add: ex_utc_def)
  have ym: "calendarYearMonth ex_utc 0 ''2020-04'' = (2020, 3)"
    by (simp add: calendarYearMonth_def parseMonthInputValue_def isDigit_def readNat_def
        digitVal_def Let_def)
  have yr: "(2020::int) < 0 \<or> 99 < (2020::int)" by simp
  have ex: "\<forall>k. 1 \<le> k \<and> k \<le> daysInMonth 2020 3 \<longrightarrow>
               localTimeExists ex_utc (MakeDay 2020 3 k * msPerDay)"
    by (simp add: fixed_zone(3) [OF z])
  note g = buildCalendarCells_grid [OF ym yr ex]
  have wd: "(WeekDay (MakeDay 2020 3 1) + 6) mod 7 = 2"
    by (simp add: WeekDay_def MakeDay_def DayFromYear_def monthStart_def leapDays_def DaysInYear_def)
  have dm: "daysInMonth 2020 3 = 30"
    by (simp add: daysInMonth_def monthStart_def)
  from g wd have off: "(getDay ex_utc (newDate ex_utc 2020 3 1) + 6) mod 7 = 2" by simp
  from g dm have nd: "getDate ex_utc (newDate ex_utc 2020 (3 + 1) 0) = 30" by simp
  note g' = g [unfolded off nd]
  from g' have len: "int (length ?cells) = 35" by (simp add: ceilDiv_def)
  from g' have lead: "\<forall>i. 0 \<le> i \<and> i < 2 \<longrightarrow> cellDate (?cells ! nat i) = None" by simp
  from g' have mid: "\<forall>k. 1 \<le> k \<and> k \<le> 30 \<longrightarrow>
      cellDate (?cells ! nat (2 + k - 1)) = Some (newDate ex_utc 2020 3 k)
      \<and> getDate ex_utc (newDate ex_utc 2020 3 k) = k
      \<and> getFullYear ex_utc (newDate ex_utc 2020 3 k) = 2020" by simp
  from g' have trail: "\<forall>i. 2 + 30 \<le> i \<and> i < int (length ?cells) \<longrightarrow>
      cellDate (?cells ! nat i) = None" by simp
  from lead [rule_format, of 0] lead [rule_format, of 1]
  have l: "cellDate (?cells ! 0) = None" "cellDate (?cells ! 1) = None" by simp_all
  from mid [rule_format, of 1] mid [rule_format, of 30]
  have m: "cellDate (?cells ! 2) = Some (newDate ex_utc 2020 3 1)"
    "getDate ex_utc (newDate ex_utc 2020 3 1) = 1"
    "cellDate (?cells ! 31) = Some (newDate ex_utc 2020 3 30)"
    "getDate ex_utc (newDate ex_utc 2020 3 30) = 30"
    "getFullYear ex_utc (newDate ex_utc 2020 3 30) = 2020"
    by simp_all
  from trail [rule_format, of 32] trail [rule_format, of 34] len
  have t: "cellDate (?cells ! 32) = None" "cellDate (?cells ! 34) = None" by simp_all
  have e: "localTimeExists ex_utc (MakeDay 2020 3 1 * msPerDay)"
    "localTimeExists ex_utc (MakeDay 2020 3 30 * msPerDay)"
    by (simp_all add: fixed_zone(3) [OF z])
  from ym yr e off nd len l m t show ?thesis by simp
qed

text \<open>
  C9 as stated, for every year and in every time zone, fails twice. The \<open>Date\<close>
  constructor reads a year from 0 to 99 as 1900 plus that year: for the month text
  \<open>0000-02\<close> the grid is that of February 1900, with 28 dated cells where February of
  the year 0 has 29. And where the zone skips local midnight, the cell of that day is not
  at local midnight: in Santiago the cell of 2024-09-08 is at 01:00.
\<close>

theorem buildCalendarCells_grid_counterexample:
  "calendarYearMonth ex_utc 0 ''0000-02'' = (0, 1)
   \<and> daysInMonth 0 1 = 29
   \<and> getDate ex_utc (newDate ex_utc 0 (1 + 1) 0) = 28
   \<and> length (filter (\<lambda>c. cellDate c \<noteq> None) (buildCalendarCells ex_utc 0 ''0000-02'')) = 28
   \<and> cellDate (buildCalendarCells ex_utc 0 ''0000-02'' ! 3) = Some (newDate ex_utc 0 1 1)
   \<and> getFullYear ex_utc (newDate ex_utc 0 1 1) = 1900
   \<and> calendarYearMonth ex_santiago 0 ''2024-09'' = (2024, 8)
   \<and> cellDate (buildCalendarCells ex_santiago 0 ''2024-09'' ! 13)
       = Some (newDate ex_santiago 2024 8 8)
   \<and> getDate ex_santiago (newDate ex_santiago 2024 8 8) = 8
   \<and> TimeWithinDay (LocalTime ex_santiago (newDate ex_santiago 2024 8 8)) = 3600000"
proof -
  have z: "transitions ex_utc = []" by (simp add: ex_utc_def)
  have ym0: "calendarYearMonth ex_utc 0 ''0000-02'' = (0, 1)"
    by (simp add: calendarYearMonth_def parseMonthInputValue_def isDigit_def readNat_def
        digitVal_def Let_def)
  have dm0: "daysInMonth 0 1 = 29" "daysInMonth 1900 1 = 28" "dateYear 0 = 1900"
    by (simp_all add: daysInMonth_def monthStart_def leapDays_def DaysInYear_def dateYear_def)
  have f1: "getFullYear ex_utc (newDate ex_utc 0 1 1) = 1900"
    "getDay ex_utc (newDate ex_utc 0 1 1) = WeekDay (MakeDay 1900 1 1)"
    using newDate_fields [of 1 1 0 ex_utc] by (simp_all add: dm0 fixed_zone(3) [OF z])
  have wd0: "(WeekDay (MakeDay 1900 1 1) + 6) mod 7 = 3"
    by (simp add: WeekDay_def MakeDay_def DayFromYear_def monthStart_def leapDays_def DaysInYear_def)
  have nd0: "getDate ex_utc (newDate ex_utc 0 (1 + 1) 0) = 28"
    using getDate_last [of 1 ex_utc 0] by (simp add: dm0 fixed_zone(3) [OF z])
  have cells0: "buildCalendarCells ex_utc 0 ''0000-02'' =
      map (\<lambda>index. if index - 3 + 1 < 1 \<or> index - 3 + 1 > 28
                    then \<lparr>cellKey = ''empty-'' @ showInt index, cellDate = None\<rparr>
                    else \<lparr>cellKey = ''0000-02'' @ ''-'' @ showInt (index - 3 + 1),
                          cellDate = Some (newDate ex_utc 0 1 (index - 3 + 1))\<rparr>) [0..34]"
    using nd0 by (simp add: buildCalendarCells_def ym0 f1 wd0 Let_def ceilDiv_def)
  have c1: "length (filter (\<lambda>c. cellDate c \<noteq> None) (buildCalendarCells ex_utc 0 ''0000-02'')) = 28"
    unfolding cells0 by (simp add: upto_rec1)
  have c2: "cellDate (buildCalendarCells ex_utc 0 ''0000-02'' ! 3) = Some (newDate ex_utc 0 1 1)"
    unfolding cells0 by (simp add: upto_rec1)
  have ym1: "calendarYearMonth ex_santiago 0 ''2024-09'' = (2024, 8)"
    by (simp add: calendarYearMonth_def parseMonthInputValue_def isDigit_def readNat_def
        digitVal_def Let_def)
  have md: "MakeDay 2024 8 1 = 19967" "MakeDay 2024 8 8 = 19974" "MakeDay 2024 8 30 = 19996"
    "daysInMonth 2024 8 = 30" "dateYear 2024 = 2024"
    by (simp_all add: MakeDay_def DayFromYear_def monthStart_def leapDays_def DaysInYear_def
        daysInMonth_def dateYear_def)
  have e1: "localTimeExists ex_santiago (MakeDay 2024 8 1 * msPerDay)"
    "localTimeExists ex_santiago (MakeDay 2024 8 30 * msPerDay)"
    by (simp_all add: md localTimeExists_def LocalTime_def UTC_def ex_santiago_def msPerDay_def)
  have g1: "getDay ex_santiago (newDate ex_santiago 2024 8 1) = WeekDay (MakeDay 2024 8 1)"
    using newDate_fields [of 8 1 2024 ex_santiago] e1 by (simp add: md)
  have wd1: "(WeekDay (MakeDay 2024 8 1) + 6) mod 7 = 6"
    by (simp add: md WeekDay_def)
  have nd1: "getDate ex_santiago (newDate ex_santiago 2024 (8 + 1) 0) = 30"
    using getDate_last [of 8 ex_santiago 2024] e1 by (simp add: md)
  have cells1: "buildCalendarCells ex_santiago 0 ''2024-09'' =
      map (\<lambda>index. if index - 6 + 1 < 1 \<or> index - 6 + 1 > 30
                    then \<lparr>cellKey = ''empty-'' @ showInt index, cellDate = None\<rparr>
                    else \<lparr>cellKey = ''2024-09'' @ ''-'' @ showInt (index - 6 + 1),
                          cellDate = Some (newDate ex_santiago 2024 8 (index - 6 + 1))\<rparr>) [0..41]"
    using nd1 by (simp add: buildCalendarCells_def ym1 g1 wd1 Let_def ceilDiv_def)
  have c3: "cellDate (buildCalendarCells ex_santiago 0 ''2024-09'' ! 13)
       = Some (newDate ex_santiago 2024 8 8)"
    unfolding cells1 by (simp add: upto_rec1)
  have lt8: "LocalTime ex_santiago (newDate ex_santiago 2024 8 8) = 19974 * msPerDay + 3600000"
    by (simp add: newDate_local md LocalTime_def UTC_def ex_santiago_def msPerDay_def)
  have c4: "TimeWithinDay (LocalTime ex_santiago (newDate ex_santiago 2024 8 8)) = 3600000"
    unfolding lt8 by (rule Day_within(2)) (simp_all add: msPerDay_def)
  have "Day (LocalTime ex_santiago (newDate ex_santiago 2024 8 8)) = MakeDay 2024 8 8"
    unfolding lt8 md by (rule Day_within(1)) (simp_all add: msPerDay_def)
  with fields_MakeDay [of 8 8 2024] have c5: "getDate ex_santiago (newDate ex_santiago 2024 8 8) = 8"
    by (simp add: getDate_def md)
  from ym0 dm0 nd0 c1 c2 f1 ym1 c3 c5 c4 show ?thesis by simp
qed

section \<open>Last-N-days report\<close>













section \<open>Work-week grouping\<close>



lemma WeekDay_range: "0 \<le> WeekDay d \<and> WeekDay d < 7"
  by (simp add: WeekDay_def)














end
